theory Spec2Isabelle
  imports Complex_Main "HOL-Library.Char_ord" "HOL-Library.Multiset"
begin

section \<open>Data model (models/models.go)\<close>

text \<open>
  Go strings are byte sequences, as \<^typ>\<open>string\<close> is. Of \<open>OMDbResponse\<close> only the
  fields read by the service layer are kept; the others are never inspected by it.
\<close>

record OMDbResponse =
  Title :: string
  Year :: string
  Genre :: string
  Director :: string
  Actors :: string
  Plot :: string
  ImdbRating :: string
  Response :: string

record MovieBrief =
  Title :: string
  Year :: string
  ImdbRating :: string
  Genre :: string
  Director :: string
  Plot :: string

record MovieLevel =
  Level :: int
  Description :: string
  Movies :: "MovieBrief list"

record RecommendationResponse =
  FavoriteMovie :: MovieBrief
  Recommendations :: "MovieLevel list"

record SearchResult =
  Title :: string
  Year :: string
  ImdbID :: string

record SearchResponse =
  Search :: "SearchResult list"
  Response :: string

section \<open>Library routines used by the service\<close>

subsection \<open>Strings\<close>

text \<open>
  \<open>strings.ToLower\<close> on ASCII text: the letters \<open>A\<close> to \<open>Z\<close> move up by 32, every
  other byte stays. (The library also maps letters outside ASCII; no statement below
  depends on which bytes are mapped, except the one that splits the key of a
  concatenation.)
\<close>

definition toLowerChar :: "char \<Rightarrow> char" where
  "toLowerChar c =
     (if CHR ''A'' \<le> c \<and> c \<le> CHR ''Z'' then char_of (of_char c + (32::nat)) else c)"

definition ToLower :: "string \<Rightarrow> string" where
  "ToLower s = map toLowerChar s"

text \<open>\<open>strings.EqualFold\<close> on ASCII text.\<close>

definition EqualFold :: "string \<Rightarrow> string \<Rightarrow> bool" where
  "EqualFold s t = (ToLower s = ToLower t)"

fun hasPrefix :: "string \<Rightarrow> string \<Rightarrow> bool" where
  "hasPrefix s [] = True"
| "hasPrefix [] (p # ps) = False"
| "hasPrefix (c # cs) (p # ps) = (c = p \<and> hasPrefix cs ps)"

text \<open>\<open>strings.Contains s substr\<close>; the empty string is contained in every string.\<close>

fun Contains :: "string \<Rightarrow> string \<Rightarrow> bool" where
  "Contains [] substr = hasPrefix [] substr"
| "Contains (c # cs) substr = (hasPrefix (c # cs) substr \<or> Contains cs substr)"

text \<open>
  \<open>strings.Split s ", "\<close>: the pieces between occurrences of the two-byte separator,
  scanning from the left; a string without the separator is its own single piece, and
  so is the empty string. \<open>cur\<close> holds the current piece, reversed.
\<close>

fun splitFrom :: "string \<Rightarrow> string \<Rightarrow> string list" where
  "splitFrom cur [] = [rev cur]"
| "splitFrom cur [c] = [rev (c # cur)]"
| "splitFrom cur (c # d # cs) =
     (if c = CHR '','' \<and> d = CHR '' '' then rev cur # splitFrom [] cs
      else splitFrom (c # cur) (d # cs))"

definition SplitCommaSpace :: "string \<Rightarrow> string list" where
  "SplitCommaSpace s = splitFrom [] s"

text \<open>The verb \<open>%d\<close> of \<open>fmt.Sprintf\<close>: decimal digits, with a minus sign when negative.\<close>

function itoaNat :: "nat \<Rightarrow> string" where
  "itoaNat n =
     (if n < 10 then [char_of (48 + n)] else itoaNat (n div 10) @ [char_of (48 + n mod 10)])"
  by pat_completeness auto
termination
  by (relation "measure id") auto

definition Itoa :: "int \<Rightarrow> string" where
  "Itoa i = (if i < 0 then CHR ''-'' # itoaNat (nat (- i)) else itoaNat (nat i))"

subsection \<open>Parsed ratings\<close>

text \<open>
  The values a \<open>float64\<close> can hold, as far as comparisons see them: a finite number,
  the two infinities, and NaN. The operator \<open>>\<close> of Go is false as soon as one side is
  NaN.
\<close>

datatype f64 = NaN | NegInf | Finite rat | PosInf

fun f64_gt :: "f64 \<Rightarrow> f64 \<Rightarrow> bool" where
  "f64_gt NaN y = False"
| "f64_gt x NaN = False"
| "f64_gt PosInf PosInf = False"
| "f64_gt PosInf y = True"
| "f64_gt x PosInf = False"
| "f64_gt NegInf y = False"
| "f64_gt (Finite a) NegInf = True"
| "f64_gt (Finite a) (Finite b) = (b < a)"

text \<open>
  \<open>strconv.ParseFloat s 64\<close> returns a value and an error; the second component is
  \<open>True\<close> when the error is not nil. The service is parametrised by the parser, so
  every general statement below holds for the library's parser whatever it accepts.
\<close>

type_synonym parser = "string \<Rightarrow> f64 \<times> bool"

text \<open>
  A parser for the examples. It follows \<open>strconv.ParseFloat\<close> on the strings it
  accepts: \<open>nan\<close> in any case, an optionally signed \<open>inf\<close> or \<open>infinity\<close> in any case,
  and an optionally signed decimal numeral with an optional fraction (at least one
  digit in all). On every other string it reports a syntax error with the value 0, as
  the library does for a string that is not a number; exponents, hexadecimal numerals
  and digit separators are outside this fragment, and so is rounding to 53 bits.
\<close>

definition isDigit :: "char \<Rightarrow> bool" where
  "isDigit c = (CHR ''0'' \<le> c \<and> c \<le> CHR ''9'')"

definition digitsValue :: "string \<Rightarrow> nat" where
  "digitsValue ds = foldl (\<lambda>acc c. 10 * acc + (of_char c - 48)) 0 ds"

definition parseDecimal :: "string \<Rightarrow> rat option" where
  "parseDecimal body =
     (let ip = takeWhile (\<lambda>c. c \<noteq> CHR ''.'') body;
          fp = drop 1 (dropWhile (\<lambda>c. c \<noteq> CHR ''.'') body)
      in if list_all isDigit ip \<and> list_all isDigit fp \<and> (ip \<noteq> [] \<or> fp \<noteq> [])
         then Some (of_nat (digitsValue ip) + of_nat (digitsValue fp) / 10 ^ length fp)
         else None)"

definition parseFloat :: parser where
  "parseFloat s =
     (let neg = hasPrefix s ''-'';
          body = (if hasPrefix s ''-'' \<or> hasPrefix s ''+'' then drop 1 s else s)
      in if ToLower s = ''nan'' then (NaN, False)
         else if ToLower body = ''inf'' \<or> ToLower body = ''infinity''
              then (if neg then NegInf else PosInf, False)
         else (case parseDecimal body of
                 Some r \<Rightarrow> (Finite (if neg then - r else r), False)
               | None \<Rightarrow> (Finite 0, True)))"

subsection \<open>Sorting\<close>

text \<open>
  \<open>sort.Slice\<close> on a short slice is the library's insertion sort:
  \<^verbatim>\<open>
  for i := a + 1; i < b; i++ {
      for j := i; j > a && data.Less(j, j-1); j-- { data.Swap(j, j-1) }
  }
  \<close>
  \<open>sink\<close> is the inner loop: \<open>x\<close> is the element at index \<open>j\<close> and the list is the part
  earlier it, nearest element first. Longer slices are sorted by the library with a
  quicksort variant; the general statements below that mention the sorted list use
  of it only that it is a rearrangement of the input.
\<close>

fun sink :: "('a \<Rightarrow> 'a \<Rightarrow> bool) \<Rightarrow> 'a \<Rightarrow> 'a list \<Rightarrow> 'a list" where
  "sink lt x [] = [x]"
| "sink lt x (y # earlier) = (if lt x y then y # sink lt x earlier else x # y # earlier)"

fun insertionSort :: "('a \<Rightarrow> 'a \<Rightarrow> bool) \<Rightarrow> 'a list \<Rightarrow> 'a list \<Rightarrow> 'a list" where
  "insertionSort lt front [] = rev front"
| "insertionSort lt front (x # xs) = insertionSort lt (sink lt x front) xs"

definition sortSlice :: "('a \<Rightarrow> 'a \<Rightarrow> bool) \<Rightarrow> 'a list \<Rightarrow> 'a list" where
  "sortSlice lt xs = insertionSort lt [] xs"

text \<open>The same loops, recording every pair handed to the comparator, in call order.\<close>

fun sinkCalls :: "('a \<Rightarrow> 'a \<Rightarrow> bool) \<Rightarrow> 'a \<Rightarrow> 'a list \<Rightarrow> ('a \<times> 'a) list" where
  "sinkCalls lt x [] = []"
| "sinkCalls lt x (y # earlier) =
     (x, y) # (if lt x y then sinkCalls lt x earlier else [])"

fun insertionSortCalls ::
  "('a \<Rightarrow> 'a \<Rightarrow> bool) \<Rightarrow> 'a list \<Rightarrow> 'a list \<Rightarrow> ('a \<times> 'a) list" where
  "insertionSortCalls lt front [] = []"
| "insertionSortCalls lt front (x # xs) =
     sinkCalls lt x front @ insertionSortCalls lt (sink lt x front) xs"

definition sortSliceCalls :: "('a \<Rightarrow> 'a \<Rightarrow> bool) \<Rightarrow> 'a list \<Rightarrow> ('a \<times> 'a) list" where
  "sortSliceCalls lt xs = insertionSortCalls lt [] xs"

section \<open>The service (services/omdb.go)\<close>

subsection \<open>Dedup and rank helpers\<close>

text \<open>The key under which both helpers remember a movie: \<open>strings.ToLower(movie.Title + movie.Year)\<close>.\<close>

definition movieKey :: "MovieBrief \<Rightarrow> string" where
  "movieKey movie = ToLower (MovieBrief.Title movie @ MovieBrief.Year movie)"

text \<open>
  The test \<open>err == nil && rating > 0\<close> on the result of parsing a movie's rating.
\<close>

definition validRating :: "parser \<Rightarrow> MovieBrief \<Rightarrow> bool" where
  "validRating pf movie =
     (case pf (MovieBrief.ImdbRating movie) of
        (rating, err) \<Rightarrow> \<not> err \<and> f64_gt rating (Finite 0))"

text \<open>
  The comparator both sorts pass to \<open>sort.Slice\<close>: the two ratings are parsed, the
  errors are discarded, and the values are compared with \<open>>\<close>.
\<close>

definition ratingLess :: "parser \<Rightarrow> MovieBrief \<Rightarrow> MovieBrief \<Rightarrow> bool" where
  "ratingLess pf a b =
     f64_gt (fst (pf (MovieBrief.ImdbRating a))) (fst (pf (MovieBrief.ImdbRating b)))"

text \<open>
  The loop of \<open>removeDuplicatesAndFilter\<close>. \<open>seen\<close> is the map from keys to booleans
  (a missing key reads as false) and \<open>unique\<close> the slice built so far.
\<close>

fun filterLoop ::
  "parser \<Rightarrow> string \<Rightarrow> (string \<Rightarrow> bool) \<Rightarrow> MovieBrief list \<Rightarrow> MovieBrief list \<Rightarrow> MovieBrief list"
where
  "filterLoop pf targetGenre seen unique [] = unique"
| "filterLoop pf targetGenre seen unique (movie # rest) =
     (if \<not> seen (movieKey movie)
         \<and> Contains (ToLower (MovieBrief.Genre movie)) (ToLower targetGenre)
      then (if validRating pf movie
            then filterLoop pf targetGenre ((seen)(movieKey movie := True)) (unique @ [movie]) rest
            else filterLoop pf targetGenre seen unique rest)
      else filterLoop pf targetGenre seen unique rest)"

definition removeDuplicatesAndFilter ::
  "parser \<Rightarrow> MovieBrief list \<Rightarrow> string \<Rightarrow> MovieBrief list" where
  "removeDuplicatesAndFilter pf movies targetGenre =
     filterLoop pf targetGenre (\<lambda>key. False) [] movies"

text \<open>
  The loop of \<open>removeDuplicatesAndLimit\<close>, which leaves as soon as the slice built so
  far has \<open>limit\<close> elements or more; the test comes after the append. \<open>limit\<close> is a Go
  \<open>int\<close>.
\<close>

fun limitLoop ::
  "parser \<Rightarrow> int \<Rightarrow> (string \<Rightarrow> bool) \<Rightarrow> MovieBrief list \<Rightarrow> MovieBrief list \<Rightarrow> MovieBrief list"
where
  "limitLoop pf limit seen unique [] = unique"
| "limitLoop pf limit seen unique (movie # rest) =
     (if \<not> seen (movieKey movie)
      then (if validRating pf movie
            then (if limit \<le> int (length (unique @ [movie]))
                  then unique @ [movie]
                  else limitLoop pf limit ((seen)(movieKey movie := True)) (unique @ [movie]) rest)
            else limitLoop pf limit seen unique rest)
      else limitLoop pf limit seen unique rest)"

text \<open>\<open>removeDuplicatesAndLimit\<close>: the sort comes first, on the whole slice.\<close>

definition removeDuplicatesAndLimit ::
  "parser \<Rightarrow> MovieBrief list \<Rightarrow> int \<Rightarrow> MovieBrief list" where
  "removeDuplicatesAndLimit pf movies limit =
     limitLoop pf limit (\<lambda>key. False) [] (sortSlice (ratingLess pf) movies)"

text \<open>The pairs of movies the comparator of that sort is called on, in call order.\<close>

definition comparatorCalls :: "parser \<Rightarrow> MovieBrief list \<Rightarrow> (MovieBrief \<times> MovieBrief) list" where
  "comparatorCalls pf movies = sortSliceCalls (ratingLess pf) movies"

text \<open>The movies handed to the comparator, call after call, and the arguments of a list of calls.\<close>

definition comparatorArgs :: "parser \<Rightarrow> MovieBrief list \<Rightarrow> MovieBrief list" where
  "comparatorArgs pf movies = concat (map (\<lambda>(a, b). [a, b]) (comparatorCalls pf movies))"

definition callArgs :: "('a \<times> 'a) list \<Rightarrow> 'a set" where
  "callArgs calls = fst ` set calls \<union> snd ` set calls"

text \<open>The rating values of a list of movies, as the comparator reads them.\<close>

definition ratings :: "parser \<Rightarrow> MovieBrief list \<Rightarrow> f64 list" where
  "ratings pf movies = map (\<lambda>movie. fst (pf (MovieBrief.ImdbRating movie))) movies"

text \<open>
  \<open>x >= y\<close> on \<open>float64\<close>, and a list in which each value is at least the next one.
\<close>

definition f64_ge :: "f64 \<Rightarrow> f64 \<Rightarrow> bool" where
  "f64_ge x y = (x \<noteq> NaN \<and> y \<noteq> NaN \<and> \<not> f64_gt y x)"

fun nonIncreasing :: "f64 list \<Rightarrow> bool" where
  "nonIncreasing [] = True"
| "nonIncreasing [x] = True"
| "nonIncreasing (x # y # rest) = (f64_ge x y \<and> nonIncreasing (y # rest))"

subsection \<open>The upstream provider\<close>

text \<open>
  Every request of the service is \<open>Client.Get\<close>, then \<open>io.ReadAll\<close>, then
  \<open>json.Unmarshal\<close>. A request is named by the parameter that varies (the key and the
  type \<open>movie\<close> are the same everywhere): the title \<open>t\<close> of a lookup or the term \<open>s\<close> of
  a search. Its outcome is the decoded record or the step that failed, with the
  message of the failure.

  The service runs its requests one after the other. The state threaded through it is
  the list of requests issued so far, and the provider answers a request as a function
  of that list (the request itself last): any sequence of answers, also one in which
  the same request is answered differently each time, is such a function.
\<close>

datatype call = TitleCall string | SearchCall string

datatype 'a reply = GetFailed string | ReadFailed string | UnmarshalFailed string | Decoded 'a

record provider =
  detailReply :: "call list \<Rightarrow> OMDbResponse reply"
  searchReply :: "call list \<Rightarrow> SearchResponse reply"

text \<open>A Go \<open>error\<close> is represented by its message, which is what the handler compares.\<close>

type_synonym error = string

definition makeRequest ::
  "provider \<Rightarrow> call \<Rightarrow> call list \<Rightarrow> (error + OMDbResponse) \<times> call list" where
  "makeRequest P params tr =
     (case detailReply P (tr @ [params]) of
        GetFailed e \<Rightarrow> (Inl (''failed to make request: '' @ e), tr @ [params])
      | ReadFailed e \<Rightarrow> (Inl (''failed to read response: '' @ e), tr @ [params])
      | UnmarshalFailed e \<Rightarrow> (Inl (''failed to parse response: '' @ e), tr @ [params])
      | Decoded omdbResp \<Rightarrow> (Inr omdbResp, tr @ [params]))"

definition GetMovieByTitle ::
  "provider \<Rightarrow> string \<Rightarrow> call list \<Rightarrow> (error + OMDbResponse) \<times> call list" where
  "GetMovieByTitle P title tr = makeRequest P (TitleCall title) tr"

text \<open>The \<open>MovieBrief\<close> literal that the service builds from a detail record, in four places.\<close>

definition briefOf :: "OMDbResponse \<Rightarrow> MovieBrief" where
  "briefOf d =
     \<lparr>MovieBrief.Title = OMDbResponse.Title d, Year = OMDbResponse.Year d,
      ImdbRating = OMDbResponse.ImdbRating d, Genre = OMDbResponse.Genre d,
      Director = OMDbResponse.Director d, Plot = OMDbResponse.Plot d\<rparr>"

text \<open>
  The search request shared by \<open>searchMovies\<close> and \<open>searchMoviesForRecommendation\<close>,
  up to the decoded \<open>SearchResponse\<close>; the three failures are returned as they come.
\<close>

definition searchRequest ::
  "provider \<Rightarrow> string \<Rightarrow> call list \<Rightarrow> (error + SearchResponse) \<times> call list" where
  "searchRequest P searchTerm tr =
     (case searchReply P (tr @ [SearchCall searchTerm]) of
        GetFailed e \<Rightarrow> (Inl e, tr @ [SearchCall searchTerm])
      | ReadFailed e \<Rightarrow> (Inl e, tr @ [SearchCall searchTerm])
      | UnmarshalFailed e \<Rightarrow> (Inl e, tr @ [SearchCall searchTerm])
      | Decoded searchResp \<Rightarrow> (Inr searchResp, tr @ [SearchCall searchTerm]))"

subsection \<open>Candidate resolution\<close>

text \<open>The loop of \<open>searchMovies\<close> over the hits of a search.\<close>

fun resolveForGenre ::
  "provider \<Rightarrow> string \<Rightarrow> SearchResult list \<Rightarrow> MovieBrief list \<Rightarrow> call list
    \<Rightarrow> MovieBrief list \<times> call list" where
  "resolveForGenre P targetGenre [] movies tr = (movies, tr)"
| "resolveForGenre P targetGenre (result # rest) movies tr =
     (case GetMovieByTitle P (SearchResult.Title result) tr of
        (Inl err, tr') \<Rightarrow> resolveForGenre P targetGenre rest movies tr'
      | (Inr movieDetails, tr') \<Rightarrow>
          (if OMDbResponse.Response movieDetails = ''False''
           then resolveForGenre P targetGenre rest movies tr'
           else if Contains (ToLower (OMDbResponse.Genre movieDetails)) (ToLower targetGenre)
           then resolveForGenre P targetGenre rest (movies @ [briefOf movieDetails]) tr'
           else resolveForGenre P targetGenre rest movies tr'))"

definition searchMovies ::
  "provider \<Rightarrow> string \<Rightarrow> string \<Rightarrow> call list \<Rightarrow> (error + MovieBrief list) \<times> call list" where
  "searchMovies P searchTerm targetGenre tr =
     (case searchRequest P searchTerm tr of
        (Inl err, tr') \<Rightarrow> (Inl err, tr')
      | (Inr searchResp, tr') \<Rightarrow>
          (if SearchResponse.Response searchResp = ''False'' then (Inr [], tr')
           else (case resolveForGenre P targetGenre (Search searchResp) [] tr' of
                   (movies, tr'') \<Rightarrow> (Inr movies, tr''))))"

text \<open>The loop of \<open>searchMoviesForRecommendation\<close> over the hits of a search.\<close>

fun resolveForRecommendation ::
  "provider \<Rightarrow> string \<Rightarrow> SearchResult list \<Rightarrow> MovieBrief list \<Rightarrow> call list
    \<Rightarrow> MovieBrief list \<times> call list" where
  "resolveForRecommendation P excludeTitle [] movies tr = (movies, tr)"
| "resolveForRecommendation P excludeTitle (result # rest) movies tr =
     (if EqualFold (SearchResult.Title result) excludeTitle
      then resolveForRecommendation P excludeTitle rest movies tr
      else (case GetMovieByTitle P (SearchResult.Title result) tr of
              (Inl err, tr') \<Rightarrow> resolveForRecommendation P excludeTitle rest movies tr'
            | (Inr movieDetails, tr') \<Rightarrow>
                (if OMDbResponse.Response movieDetails = ''False''
                 then resolveForRecommendation P excludeTitle rest movies tr'
                 else resolveForRecommendation P excludeTitle rest
                        (movies @ [briefOf movieDetails]) tr')))"

definition searchMoviesForRecommendation ::
  "provider \<Rightarrow> string \<Rightarrow> string \<Rightarrow> call list \<Rightarrow> (error + MovieBrief list) \<times> call list" where
  "searchMoviesForRecommendation P searchTerm excludeTitle tr =
     (case searchRequest P searchTerm tr of
        (Inl err, tr') \<Rightarrow> (Inl err, tr')
      | (Inr searchResp, tr') \<Rightarrow>
          (if SearchResponse.Response searchResp = ''False'' then (Inr [], tr')
           else (case resolveForRecommendation P excludeTitle (Search searchResp) [] tr' of
                   (movies, tr'') \<Rightarrow> (Inr movies, tr''))))"

subsection \<open>Genre ranking\<close>

definition currentYear :: int where
  "currentYear = 2024"

text \<open>The loop \<open>for year := currentYear; year >= currentYear-10; year--\<close>, from \<open>year\<close> on.\<close>

function yearTerms :: "string \<Rightarrow> int \<Rightarrow> int \<Rightarrow> string list" where
  "yearTerms genre year lowest =
     (if lowest \<le> year then (genre @ '' '' @ Itoa year) # yearTerms genre (year - 1) lowest
      else [])"
  by pat_completeness auto
termination
  by (relation "measure (\<lambda>(genre, year, lowest). nat (year - lowest + 1))") auto

definition searchTerms :: "string \<Rightarrow> string list" where
  "searchTerms genre =
     [genre, genre @ '' movie'', ''best '' @ genre]
       @ yearTerms genre currentYear (currentYear - 10)"

text \<open>The loop over the search terms, with its \<open>continue\<close> on an error and its \<open>break\<close>.\<close>

fun genreLoop ::
  "provider \<Rightarrow> string \<Rightarrow> string list \<Rightarrow> MovieBrief list \<Rightarrow> call list
    \<Rightarrow> MovieBrief list \<times> call list" where
  "genreLoop P genre [] allMovies tr = (allMovies, tr)"
| "genreLoop P genre (term # terms) allMovies tr =
     (case searchMovies P term genre tr of
        (Inl err, tr') \<Rightarrow> genreLoop P genre terms allMovies tr'
      | (Inr movies, tr') \<Rightarrow>
          (if 50 \<le> length (allMovies @ movies) then (allMovies @ movies, tr')
           else genreLoop P genre terms (allMovies @ movies) tr'))"

definition SearchMoviesByGenre ::
  "parser \<Rightarrow> provider \<Rightarrow> string \<Rightarrow> call list \<Rightarrow> (error + MovieBrief list) \<times> call list" where
  "SearchMoviesByGenre pf P genre tr =
     (case genreLoop P genre (searchTerms genre) [] tr of
        (allMovies, tr') \<Rightarrow>
          (let uniqueMovies = sortSlice (ratingLess pf) (removeDuplicatesAndFilter pf allMovies genre)
           in (Inr (if 15 < length uniqueMovies then take 15 uniqueMovies else uniqueMovies), tr')))"

subsection \<open>Recommendations\<close>

text \<open>The loop over the genres of the favourite movie (level 1).\<close>

fun genreTierLoop ::
  "provider \<Rightarrow> string \<Rightarrow> string list \<Rightarrow> MovieBrief list \<Rightarrow> call list
    \<Rightarrow> MovieBrief list \<times> call list" where
  "genreTierLoop P favoriteTitle [] levelMovies tr = (levelMovies, tr)"
| "genreTierLoop P favoriteTitle (genre # rest) levelMovies tr =
     (case searchMoviesForRecommendation P genre favoriteTitle tr of
        (Inl err, tr') \<Rightarrow> genreTierLoop P favoriteTitle rest levelMovies tr'
      | (Inr movies, tr') \<Rightarrow> genreTierLoop P favoriteTitle rest (levelMovies @ movies) tr')"

text \<open>The loop over the directors (level 2), which passes over \<open>N/A\<close> and the empty name.\<close>

fun directorTierLoop ::
  "provider \<Rightarrow> string \<Rightarrow> string list \<Rightarrow> MovieBrief list \<Rightarrow> call list
    \<Rightarrow> MovieBrief list \<times> call list" where
  "directorTierLoop P favoriteTitle [] levelMovies tr = (levelMovies, tr)"
| "directorTierLoop P favoriteTitle (director # rest) levelMovies tr =
     (if director \<noteq> ''N/A'' \<and> director \<noteq> []
      then (case searchMoviesForRecommendation P director favoriteTitle tr of
              (Inl err, tr') \<Rightarrow> directorTierLoop P favoriteTitle rest levelMovies tr'
            | (Inr movies, tr') \<Rightarrow>
                directorTierLoop P favoriteTitle rest (levelMovies @ movies) tr')
      else directorTierLoop P favoriteTitle rest levelMovies tr)"

text \<open>The loop over the actors (level 3); \<open>i\<close> is the index, and the loop ends at index 2.\<close>

fun actorTierLoop ::
  "provider \<Rightarrow> string \<Rightarrow> nat \<Rightarrow> string list \<Rightarrow> MovieBrief list \<Rightarrow> call list
    \<Rightarrow> MovieBrief list \<times> call list" where
  "actorTierLoop P favoriteTitle i [] levelMovies tr = (levelMovies, tr)"
| "actorTierLoop P favoriteTitle i (actor # rest) levelMovies tr =
     (if 2 \<le> i then (levelMovies, tr)
      else if actor \<noteq> ''N/A'' \<and> actor \<noteq> []
      then (case searchMoviesForRecommendation P actor favoriteTitle tr of
              (Inl err, tr') \<Rightarrow> actorTierLoop P favoriteTitle (i + 1) rest levelMovies tr'
            | (Inr movies, tr') \<Rightarrow>
                actorTierLoop P favoriteTitle (i + 1) rest (levelMovies @ movies) tr')
      else actorTierLoop P favoriteTitle (i + 1) rest levelMovies tr)"

text \<open>The \<open>if len(levelMovies) > 0\<close> that guards each append to the recommendations.\<close>

definition appendLevel ::
  "MovieLevel list \<Rightarrow> int \<Rightarrow> string \<Rightarrow> MovieBrief list \<Rightarrow> MovieLevel list" where
  "appendLevel recs level description levelMovies =
     (if 0 < length levelMovies
      then recs @ [\<lparr>Level = level, Description = description, Movies = levelMovies\<rparr>]
      else recs)"

definition GetMovieRecommendations ::
  "parser \<Rightarrow> provider \<Rightarrow> string \<Rightarrow> call list
    \<Rightarrow> (error + RecommendationResponse) \<times> call list" where
  "GetMovieRecommendations pf P favoriteTitle tr =
     (case GetMovieByTitle P favoriteTitle tr of
        (Inl err, tr0) \<Rightarrow> (Inl err, tr0)
      | (Inr favoriteMovie, tr0) \<Rightarrow>
          (if OMDbResponse.Response favoriteMovie = ''False''
           then (Inl (''movie not found: '' @ favoriteTitle), tr0)
           else
            (case genreTierLoop P favoriteTitle
                    (SplitCommaSpace (OMDbResponse.Genre favoriteMovie)) [] tr0 of
               (level1Movies, tr1) \<Rightarrow>
            (case directorTierLoop P favoriteTitle
                    (SplitCommaSpace (OMDbResponse.Director favoriteMovie)) [] tr1 of
               (level2Movies, tr2) \<Rightarrow>
            (case actorTierLoop P favoriteTitle 0
                    (SplitCommaSpace (OMDbResponse.Actors favoriteMovie)) [] tr2 of
               (level3Movies, tr3) \<Rightarrow>
              (Inr \<lparr>FavoriteMovie = briefOf favoriteMovie,
                    Recommendations =
                      appendLevel
                        (appendLevel
                          (appendLevel [] 1 ''Movies in the same genre''
                            (removeDuplicatesAndLimit pf level1Movies 20))
                          2 ''Movies by the same director''
                          (removeDuplicatesAndLimit pf level2Movies 20))
                        3 ''Movies with the same main actors''
                        (removeDuplicatesAndLimit pf level3Movies 20)\<rparr>,
               tr3))))))"

section \<open>The handlers (handlers/handlers.go)\<close>

text \<open>A handler answers with a status code and a JSON body.\<close>

datatype body =
  ErrorBody string string int
| GenreMoviesBody string "MovieBrief list" int
| RecommendationBody RecommendationResponse

definition GetMoviesByGenreHandler ::
  "parser \<Rightarrow> provider \<Rightarrow> string \<Rightarrow> call list \<Rightarrow> (int \<times> body) \<times> call list" where
  "GetMoviesByGenreHandler pf P genre tr =
     (if genre = [] then ((400, ErrorBody ''Bad Request'' ''Genre parameter is required'' 400), tr)
      else (case SearchMoviesByGenre pf P genre tr of
              (Inl err, tr') \<Rightarrow>
                ((500, ErrorBody ''Internal Server Error'' ''Failed to fetch movies by genre'' 500), tr')
            | (Inr movies, tr') \<Rightarrow>
                (if length movies = 0
                 then ((404, ErrorBody ''Not Found'' ''No movies found for the specified genre'' 404), tr')
                 else ((200, GenreMoviesBody genre movies (int (length movies))), tr'))))"

definition GetMovieRecommendationsHandler ::
  "parser \<Rightarrow> provider \<Rightarrow> string \<Rightarrow> call list \<Rightarrow> (int \<times> body) \<times> call list" where
  "GetMovieRecommendationsHandler pf P favoriteMovie tr =
     (if favoriteMovie = []
      then ((400, ErrorBody ''Bad Request'' ''favorite_movie parameter is required'' 400), tr)
      else (case GetMovieRecommendations pf P favoriteMovie tr of
              (Inl err, tr') \<Rightarrow>
                (if err = ''movie not found: '' @ favoriteMovie
                 then ((404, ErrorBody ''Not Found'' ''Favorite movie not found'' 404), tr')
                 else ((500, ErrorBody ''Internal Server Error''
                               ''Failed to generate recommendations'' 500), tr'))
            | (Inr recommendations, tr') \<Rightarrow> ((200, RecommendationBody recommendations), tr')))"

text \<open>The search terms among the requests of a trace, in the order they were issued.\<close>

fun searchesOf :: "call list \<Rightarrow> string list" where
  "searchesOf [] = []"
| "searchesOf (TitleCall title # tr) = searchesOf tr"
| "searchesOf (SearchCall searchTerm # tr) = searchTerm # searchesOf tr"

section \<open>Example data\<close>

definition exampleMovie :: "string \<Rightarrow> string \<Rightarrow> string \<Rightarrow> MovieBrief" where
  "exampleMovie title year rating =
     \<lparr>MovieBrief.Title = title, Year = year, ImdbRating = rating, Genre = ''Drama'',
      Director = ''N/A'', Plot = []\<rparr>"

text \<open>A search hit, a detail record, and the two negative answers of the provider.\<close>

definition exampleHit :: "string \<Rightarrow> SearchResult" where
  "exampleHit title = \<lparr>SearchResult.Title = title, Year = ''1995'', ImdbID = ''tt0113277''\<rparr>"

definition exampleDetails ::
  "string \<Rightarrow> string \<Rightarrow> string \<Rightarrow> string \<Rightarrow> string \<Rightarrow> OMDbResponse" where
  "exampleDetails title genre director actors rating =
     \<lparr>OMDbResponse.Title = title, Year = ''1995'', Genre = genre, Director = director,
      Actors = actors, Plot = [], ImdbRating = rating, Response = ''True''\<rparr>"

definition notFoundDetails :: OMDbResponse where
  "notFoundDetails =
     \<lparr>OMDbResponse.Title = [], Year = [], Genre = [], Director = [], Actors = [], Plot = [],
      ImdbRating = [], Response = ''False''\<rparr>"

definition noResults :: SearchResponse where
  "noResults = \<lparr>Search = [], Response = ''False''\<rparr>"

text \<open>A provider that knows no movie, and one that cannot be reached.\<close>

definition quietProvider :: provider where
  "quietProvider =
     \<lparr>detailReply = (\<lambda>tr. Decoded notFoundDetails), searchReply = (\<lambda>tr. Decoded noResults)\<rparr>"

definition downProvider :: provider where
  "downProvider =
     \<lparr>detailReply = (\<lambda>tr. GetFailed ''connection refused''),
      searchReply = (\<lambda>tr. GetFailed ''connection refused'')\<rparr>"

text \<open>A provider that answers every search with the same fifty hits.\<close>

definition busyProvider :: provider where
  "busyProvider =
     \<lparr>detailReply = (\<lambda>tr. Decoded (exampleDetails ''Heat'' ''Action, Crime, Drama''
                          ''Michael Mann'' ''Al Pacino, Robert De Niro'' ''8.3'')),
      searchReply = (\<lambda>tr. Decoded \<lparr>Search = replicate 50 (exampleHit ''Heat''),
                                    Response = ''True''\<rparr>)\<rparr>"

text \<open>
  A provider with a favourite movie \<open>Seed\<close> whose director and actors are \<open>N/A\<close>; the
  search for its genre finds the movie itself and one other.
\<close>

definition seedProvider :: provider where
  "seedProvider =
     \<lparr>detailReply = (\<lambda>tr. case rev tr of
          TitleCall title # earlier \<Rightarrow>
            (if title = ''Seed''
             then Decoded (exampleDetails ''Seed'' ''Drama'' ''N/A'' ''N/A'' ''7.0'')
             else Decoded (exampleDetails title ''Drama'' ''Jane Roe'' ''N/A'' ''6.5''))
        | _ \<Rightarrow> UnmarshalFailed ''unexpected end of JSON input''),
      searchReply = (\<lambda>tr. case rev tr of
          SearchCall searchTerm # earlier \<Rightarrow>
            (if searchTerm = ''Drama''
             then Decoded \<lparr>Search = [exampleHit ''Seed'', exampleHit ''Other''],
                           Response = ''True''\<rparr>
             else Decoded noResults)
        | _ \<Rightarrow> UnmarshalFailed ''unexpected end of JSON input'')\<rparr>"

section \<open>Properties of the dedup and rank helpers\<close>

subsection \<open>The sort rearranges its input\<close>

lemma mset_sink: "mset (sink lt x front) = add_mset x (mset front)"
  by (induction front) auto

lemma mset_insertionSort: "mset (insertionSort lt front xs) = mset front + mset xs"
  by (induction xs arbitrary: front) (auto simp: mset_sink)

lemma mset_sortSlice: "mset (sortSlice lt xs) = mset xs"
  by (simp add: sortSlice_def mset_insertionSort)

lemma set_sortSlice: "set (sortSlice lt xs) = set xs"
  using mset_sortSlice [of lt xs] by (metis set_mset_mset)

subsection \<open>Keys of the kept movies\<close>

text \<open>
  Both loops keep the invariant that the keys of \<open>unique\<close> are pairwise different and
  all marked in \<open>seen\<close>; a movie whose key is not marked extends it.
\<close>

lemma unseen_extends:
  assumes "distinct (map movieKey unique)" "\<forall>m \<in> set unique. seen (movieKey m)"
    and "\<not> seen (movieKey a)"
  shows "distinct (map movieKey (unique @ [a]))"
    and "\<forall>m \<in> set (unique @ [a]). (seen(movieKey a := True)) (movieKey m)"
  using assms by auto

lemma limitLoop_distinct:
  "distinct (map movieKey unique) \<Longrightarrow> \<forall>m \<in> set unique. seen (movieKey m)
    \<Longrightarrow> distinct (map movieKey (limitLoop pf limit seen unique xs))"
proof (induction xs arbitrary: seen unique)
  case Nil
  then show ?case by simp
next
  case (Cons a xs)
  show ?case
  proof (cases "\<not> seen (movieKey a) \<and> validRating pf a")
    case True
    note ext = unseen_extends [OF Cons.prems(1) Cons.prems(2), of a]
    from True ext Cons.IH [of "unique @ [a]" "seen(movieKey a := True)"]
    show ?thesis by (simp del: fun_upd_apply)
  next
    case False
    with Cons show ?thesis by auto
  qed
qed

lemma filterLoop_distinct:
  "distinct (map movieKey unique) \<Longrightarrow> \<forall>m \<in> set unique. seen (movieKey m)
    \<Longrightarrow> distinct (map movieKey (filterLoop pf g seen unique xs))"
proof (induction xs arbitrary: seen unique)
  case Nil
  then show ?case by simp
next
  case (Cons a xs)
  show ?case
  proof (cases "\<not> seen (movieKey a) \<and> validRating pf a")
    case True
    note ext = unseen_extends [OF Cons.prems(1) Cons.prems(2), of a]
    from True ext Cons.IH [of "unique @ [a]" "seen(movieKey a := True)"] Cons.IH [OF Cons.prems]
    show ?thesis by (simp del: fun_upd_apply)
  next
    case False
    with Cons show ?thesis by auto
  qed
qed

lemma ToLower_append: "ToLower (s @ t) = ToLower s @ ToLower t"
  by (simp add: ToLower_def)

text \<open>
  Claim C4. No two movies returned by \<open>removeDuplicatesAndFilter\<close> have the same key,
  no two movies returned by \<open>removeDuplicatesAndLimit\<close> have the same key, and the key
  of a movie is its title in lower case followed by its year in lower case.
\<close>

theorem C4_keys_unique:
  "distinct (map movieKey (removeDuplicatesAndFilter pf movies targetGenre))
   \<and> distinct (map movieKey (removeDuplicatesAndLimit pf movies limit))
   \<and> movieKey movie = ToLower (MovieBrief.Title movie) @ ToLower (MovieBrief.Year movie)"
  by (simp add: removeDuplicatesAndFilter_def removeDuplicatesAndLimit_def
      limitLoop_distinct filterLoop_distinct movieKey_def ToLower_append)

subsection \<open>The bound\<close>

text \<open>
  The loop tests the length after it has appended. With a limit of at least 1 the
  result never exceeds the limit.
\<close>

lemma limitLoop_length:
  "0 < limit \<Longrightarrow> int (length unique) < limit
    \<Longrightarrow> int (length (limitLoop pf limit seen unique xs)) \<le> limit"
  by (induction xs arbitrary: seen unique) auto

lemma removeDuplicatesAndLimit_bound:
  "0 < limit \<Longrightarrow> int (length (removeDuplicatesAndLimit pf movies limit)) \<le> limit"
  by (simp add: removeDuplicatesAndLimit_def limitLoop_length)

text \<open>
  Claim C1. The claim is that \<open>removeDuplicatesAndLimit\<close> returns at most \<open>limit\<close>
  movies for every limit, the limit 0 included. With the limit 0 and a single movie
  of rating 5 the function returns that movie: one element, more than the limit.
\<close>

theorem C1_limit_zero_returns_one:
  "removeDuplicatesAndLimit parseFloat [exampleMovie ''A'' ''2001'' ''5''] 0
     = [exampleMovie ''A'' ''2001'' ''5'']
   \<and> \<not> int (length (removeDuplicatesAndLimit parseFloat [exampleMovie ''A'' ''2001'' ''5''] 0)) \<le> 0"
  by code_simp

subsection \<open>What the comparator is called on\<close>

lemma callArgs_simps [simp]:
  "callArgs [] = {}"
  "callArgs ((a, b) # calls) = insert a (insert b (callArgs calls))"
  "callArgs (cs @ ds) = callArgs cs \<union> callArgs ds"
  by (auto simp: callArgs_def)

lemma set_concat_pairs: "set (concat (map (\<lambda>(a, b). [a, b]) calls)) = callArgs calls"
  by (induction calls) auto

lemma sink_not_Nil: "sink lt x front \<noteq> []"
  by (cases front) auto

lemma set_sink: "set (sink lt x front) = insert x (set front)"
  by (induction front) auto

lemma sinkCalls_args: "callArgs (sinkCalls lt x front) \<subseteq> insert x (set front)"
  by (induction front) auto

lemma sinkCalls_first:
  "front \<noteq> [] \<Longrightarrow>
     x \<in> callArgs (sinkCalls lt x front) \<and> hd front \<in> callArgs (sinkCalls lt x front)"
  by (cases front) auto

lemma insertionSortCalls_args:
  "callArgs (insertionSortCalls lt front xs) \<subseteq> set front \<union> set xs"
proof (induction xs arbitrary: front)
  case Nil
  then show ?case by simp
next
  case (Cons x xs)
  from Cons [of "sink lt x front"] sinkCalls_args [of lt x front]
  show ?case by (auto simp: set_sink)
qed

text \<open>Once an element is in place, every later element is compared when it is inserted.\<close>

lemma insertionSortCalls_all:
  "front \<noteq> [] \<Longrightarrow> set xs \<subseteq> callArgs (insertionSortCalls lt front xs)"
proof (induction xs arbitrary: front)
  case Nil
  then show ?case by simp
next
  case (Cons x xs)
  from Cons.IH [OF sink_not_Nil, of lt x front] sinkCalls_first [OF Cons.prems, of x lt]
  show ?case by auto
qed

lemma sortSliceCalls_all:
  assumes "2 \<le> length xs"
  shows "callArgs (sortSliceCalls lt xs) = set xs"
proof -
  from assms obtain x y rest where xs: "xs = x # y # rest"
    by (cases xs; cases "tl xs") auto
  have "callArgs (sortSliceCalls lt xs) \<subseteq> set xs"
    using insertionSortCalls_args [of lt "[]" xs] by (simp add: sortSliceCalls_def)
  moreover have "set (y # rest) \<subseteq> callArgs (insertionSortCalls lt [x] (y # rest))"
    by (rule insertionSortCalls_all) simp
  moreover have "x \<in> callArgs (insertionSortCalls lt [x] (y # rest))"
    by simp
  ultimately show ?thesis
    by (auto simp: xs sortSliceCalls_def)
qed

text \<open>The loop returns movies of its input only, and of those only the ones whose rating is valid.\<close>

lemma limitLoop_set:
  "set (limitLoop pf limit seen unique xs) \<subseteq> set unique \<union> {m \<in> set xs. validRating pf m}"
proof (induction xs arbitrary: seen unique)
  case Nil
  then show ?case by simp
next
  case (Cons a xs)
  have kept: "set (limitLoop pf limit (seen(movieKey a := True)) (unique @ [a]) xs)
      \<subseteq> set (unique @ [a]) \<union> {m \<in> set xs. validRating pf m}"
    by (rule Cons.IH)
  have skipped: "set (limitLoop pf limit seen unique xs)
      \<subseteq> set unique \<union> {m \<in> set xs. validRating pf m}"
    by (rule Cons.IH)
  from kept skipped show ?case by auto
qed

lemma removeDuplicatesAndLimit_valid:
  "set (removeDuplicatesAndLimit pf movies limit) \<subseteq> {m \<in> set movies. validRating pf m}"
  using limitLoop_set [of pf limit "\<lambda>key. False" "[]" "sortSlice (ratingLess pf) movies"]
  by (simp add: removeDuplicatesAndLimit_def set_sortSlice)

text \<open>
  Claim C2, as the code has it. \<open>removeDuplicatesAndLimit\<close> sorts first, and the sort
  is given the whole input: as soon as the input has two movies, every movie of the
  input is handed to the comparator, whatever its rating. Movies whose rating does not
  parse or is not positive are dropped afterwards, by the loop, so that every movie
  returned is a movie of the input with a rating that parses to a positive number.
\<close>

theorem C2_dropped_after_sort:
  "(\<forall>m \<in> set (removeDuplicatesAndLimit pf movies limit). m \<in> set movies \<and> validRating pf m)
   \<and> (2 \<le> length movies \<longrightarrow> set (comparatorArgs pf movies) = set movies)"
proof -
  have "2 \<le> length movies \<Longrightarrow> set (comparatorArgs pf movies) = set movies"
    unfolding comparatorArgs_def comparatorCalls_def set_concat_pairs
    by (rule sortSliceCalls_all)
  with removeDuplicatesAndLimit_valid [of pf movies limit] show ?thesis by blast
qed

text \<open>
  The theorem at an input of two movies, one rated \<open>8.1\<close> and one rated \<open>N/A\<close>: the
  first is returned, and both were handed to the comparator.
\<close>

theorem C2_dropped_after_sort_witness:
  "2 \<le> length [exampleMovie ''A'' ''2001'' ''8.1'', exampleMovie ''B'' ''2002'' ''N/A'']
   \<and> set (comparatorArgs parseFloat
        [exampleMovie ''A'' ''2001'' ''8.1'', exampleMovie ''B'' ''2002'' ''N/A''])
      = set [exampleMovie ''A'' ''2001'' ''8.1'', exampleMovie ''B'' ''2002'' ''N/A'']
   \<and> list_all (validRating parseFloat) (removeDuplicatesAndLimit parseFloat
        [exampleMovie ''A'' ''2001'' ''8.1'', exampleMovie ''B'' ''2002'' ''N/A''] 20)
   \<and> removeDuplicatesAndLimit parseFloat
        [exampleMovie ''A'' ''2001'' ''8.1'', exampleMovie ''B'' ''2002'' ''N/A''] 20
      = [exampleMovie ''A'' ''2001'' ''8.1'']"
proof -
  have out: "removeDuplicatesAndLimit parseFloat
        [exampleMovie ''A'' ''2001'' ''8.1'', exampleMovie ''B'' ''2002'' ''N/A''] 20
      = [exampleMovie ''A'' ''2001'' ''8.1'']"
    by code_simp
  from out C2_dropped_after_sort [of parseFloat
      "[exampleMovie ''A'' ''2001'' ''8.1'', exampleMovie ''B'' ''2002'' ''N/A'']" 20]
  show ?thesis by (simp add: list_all_iff)
qed

text \<open>
  The claim as stated fails at that input: the comparator is called once, on the movie
  rated \<open>N/A\<close> and the movie rated \<open>8.1\<close>, and \<open>N/A\<close> does not parse (the comparator
  reads it as 0, the value returned with the error).
\<close>

theorem C2_unparseable_reaches_comparator:
  "comparatorArgs parseFloat
      [exampleMovie ''A'' ''2001'' ''8.1'', exampleMovie ''B'' ''2002'' ''N/A'']
     = [exampleMovie ''B'' ''2002'' ''N/A'', exampleMovie ''A'' ''2001'' ''8.1'']
   \<and> parseFloat (MovieBrief.ImdbRating (exampleMovie ''B'' ''2002'' ''N/A'')) = (Finite 0, True)"
  by code_simp

subsection \<open>Order of the ratings returned\<close>

text \<open>
  Claim C3. The claim is that the ratings of the movies returned are in descending
  order. \<open>removeDuplicatesAndLimit\<close> sorts before it drops the invalid ratings, and the
  rating \<open>NaN\<close> parses without error to a value that \<open>>\<close> orders against nothing: on
  the ratings 5, NaN, 9 the insertion sort moves nothing, the loop drops NaN, and the
  function returns the ratings 5 and 9 in that order.
\<close>

theorem C3_ratings_ascend_after_NaN:
  "ratings parseFloat (removeDuplicatesAndLimit parseFloat
      [exampleMovie ''A'' ''2001'' ''5'', exampleMovie ''B'' ''2002'' ''NaN'',
       exampleMovie ''C'' ''2003'' ''9''] 20) = [Finite 5, Finite 9]
   \<and> \<not> nonIncreasing (ratings parseFloat (removeDuplicatesAndLimit parseFloat
      [exampleMovie ''A'' ''2001'' ''5'', exampleMovie ''B'' ''2002'' ''NaN'',
       exampleMovie ''C'' ''2003'' ''9''] 20))"
  by code_simp

subsection \<open>Running the helper on its own output\<close>

text \<open>
  Claim C5. The claim is that \<open>removeDuplicatesAndLimit\<close> returns its own output
  unchanged. On the ratings 5, NaN, 9 it returns the movies rated 5 and 9 in that
  order; on that output it returns them in the order 9, 5.
\<close>

theorem C5_second_run_reorders:
  "removeDuplicatesAndLimit parseFloat
      [exampleMovie ''A'' ''2001'' ''5'', exampleMovie ''B'' ''2002'' ''NaN'',
       exampleMovie ''C'' ''2003'' ''9''] 20
     = [exampleMovie ''A'' ''2001'' ''5'', exampleMovie ''C'' ''2003'' ''9'']
   \<and> removeDuplicatesAndLimit parseFloat
       [exampleMovie ''A'' ''2001'' ''5'', exampleMovie ''C'' ''2003'' ''9''] 20
     = [exampleMovie ''C'' ''2003'' ''9'', exampleMovie ''A'' ''2001'' ''5'']"
  by code_simp

section \<open>Properties of the pipelines\<close>

subsection \<open>Requests issued\<close>

lemma searchesOf_append: "searchesOf (tr @ tr') = searchesOf tr @ searchesOf tr'"
  by (induction tr rule: searchesOf.induct) auto

lemma GetMovieByTitle_trace: "snd (GetMovieByTitle P title tr) = tr @ [TitleCall title]"
  by (simp add: GetMovieByTitle_def makeRequest_def split: reply.splits)

lemma searchRequest_trace: "snd (searchRequest P searchTerm tr) = tr @ [SearchCall searchTerm]"
  by (simp add: searchRequest_def split: reply.splits)

lemma resolveForGenre_searches:
  "searchesOf (snd (resolveForGenre P g hits movies tr)) = searchesOf tr"
proof (induction hits arbitrary: movies tr)
  case Nil
  then show ?case by simp
next
  case (Cons hit hits)
  obtain r tr' where step: "GetMovieByTitle P (SearchResult.Title hit) tr = (r, tr')"
    by (cases "GetMovieByTitle P (SearchResult.Title hit) tr")
  with GetMovieByTitle_trace [of P "SearchResult.Title hit" tr]
  have "searchesOf tr' = searchesOf tr" by (simp add: searchesOf_append)
  with step Cons.IH show ?case by (simp split: sum.splits)
qed

text \<open>A call of \<open>searchMovies\<close> issues one search, and lookups besides.\<close>

lemma searchMovies_searches:
  "searchesOf (snd (searchMovies P searchTerm g tr)) = searchesOf tr @ [searchTerm]"
proof -
  obtain r tr' where step: "searchRequest P searchTerm tr = (r, tr')"
    by (cases "searchRequest P searchTerm tr")
  with searchRequest_trace [of P searchTerm tr]
  have "searchesOf tr' = searchesOf tr @ [searchTerm]" by (simp add: searchesOf_append)
  with step resolveForGenre_searches show ?thesis
    by (simp add: searchMovies_def split: sum.splits prod.splits) (metis snd_conv)
qed

subsection \<open>The search terms and the cut-off at fifty candidates\<close>

text \<open>
  Started with fewer than fifty candidates, the loop issues the first \<open>n\<close> terms for
  some \<open>n\<close>; before each of them the candidates collected were fewer than fifty, and
  when terms are left over, the candidates collected by the first \<open>n\<close> are fifty or
  more. The candidates collected by the first \<open>k\<close> terms are what the loop returns on
  those \<open>k\<close> terms alone.
\<close>

lemma genreLoop_cutoff:
  "length allMovies < 50 \<Longrightarrow>
   \<exists>n \<le> length terms.
      (terms \<noteq> [] \<longrightarrow> 1 \<le> n)
    \<and> searchesOf (snd (genreLoop P genre terms allMovies tr)) = searchesOf tr @ take n terms
    \<and> (\<forall>k<n. length (fst (genreLoop P genre (take k terms) allMovies tr)) < 50)
    \<and> (n < length terms \<longrightarrow> 50 \<le> length (fst (genreLoop P genre (take n terms) allMovies tr)))"
proof (induction terms arbitrary: allMovies tr)
  case Nil
  then show ?case by simp
next
  case (Cons t terms)
  obtain r tr' where step: "searchMovies P t genre tr = (r, tr')"
    by (cases "searchMovies P t genre tr")
  with searchMovies_searches [of P t genre tr]
  have tr': "searchesOf tr' = searchesOf tr @ [t]" by simp
  show ?case
  proof (cases "\<exists>movies. r = Inr movies \<and> 50 \<le> length (allMovies @ movies)")
    case True
    with step tr' Cons.prems have
      "searchesOf (snd (genreLoop P genre (t # terms) allMovies tr)) = searchesOf tr @ take 1 (t # terms)"
      "\<forall>k<1. length (fst (genreLoop P genre (take k (t # terms)) allMovies tr)) < 50"
      "50 \<le> length (fst (genreLoop P genre (take 1 (t # terms)) allMovies tr))"
      by auto
    then show ?thesis by (intro exI [of _ 1]) simp
  next
    case False
    define acc where
      "acc = (case r of Inl err \<Rightarrow> allMovies | Inr movies \<Rightarrow> allMovies @ movies)"
    from False Cons.prems have acc: "length acc < 50"
      by (cases r) (auto simp: acc_def)
    from False step have cont:
      "genreLoop P genre (t # ts) allMovies tr = genreLoop P genre ts acc tr'" for ts
      by (cases r) (auto simp: acc_def)
    from Cons.IH [OF acc, of tr'] obtain n where n: "n \<le> length terms"
      "searchesOf (snd (genreLoop P genre terms acc tr')) = searchesOf tr' @ take n terms"
      "\<forall>k<n. length (fst (genreLoop P genre (take k terms) acc tr')) < 50"
      "n < length terms \<longrightarrow> 50 \<le> length (fst (genreLoop P genre (take n terms) acc tr'))"
      by blast
    have "\<forall>k<Suc n. length (fst (genreLoop P genre (take k (t # terms)) allMovies tr)) < 50"
    proof (intro allI impI)
      fix k assume "k < Suc n"
      then show "length (fst (genreLoop P genre (take k (t # terms)) allMovies tr)) < 50"
        using n(3) cont Cons.prems by (cases k) auto
    qed
    with n cont tr' show ?thesis
      by (intro exI [of _ "Suc n"]) simp
  qed
qed

lemma searchTerms_eq:
  "searchTerms genre =
     [genre, genre @ '' movie'', ''best '' @ genre,
      genre @ '' 2024'', genre @ '' 2023'', genre @ '' 2022'', genre @ '' 2021'',
      genre @ '' 2020'', genre @ '' 2019'', genre @ '' 2018'', genre @ '' 2017'',
      genre @ '' 2016'', genre @ '' 2015'', genre @ '' 2014'']"
  by (simp add: searchTerms_def currentYear_def Itoa_def char_of_def bit_Suc_0_iff)

text \<open>
  Claim C6. The search terms are, in this order, the genre, the genre followed by
  \<open>movie\<close>, \<open>best\<close> followed by the genre, and the genre followed by each of the eleven
  years from \<open>currentYear\<close> (2024 in the source) down to 2014. \<open>SearchMoviesByGenre\<close>
  issues the first \<open>n\<close> of them, in that order, for some \<open>n\<close> from 1 to 14: a term is
  issued only while the candidates collected by the terms before it are fewer than
  fifty, and terms are left out only when the candidates collected have reached fifty.
\<close>

theorem C6_search_terms_and_cutoff:
  "searchTerms genre =
     [genre, genre @ '' movie'', ''best '' @ genre,
      genre @ '' 2024'', genre @ '' 2023'', genre @ '' 2022'', genre @ '' 2021'',
      genre @ '' 2020'', genre @ '' 2019'', genre @ '' 2018'', genre @ '' 2017'',
      genre @ '' 2016'', genre @ '' 2015'', genre @ '' 2014'']
   \<and> (\<exists>n. 1 \<le> n \<and> n \<le> 14
        \<and> searchesOf (snd (SearchMoviesByGenre pf P genre tr))
            = searchesOf tr @ take n (searchTerms genre)
        \<and> (\<forall>k<n. length (fst (genreLoop P genre (take k (searchTerms genre)) [] tr)) < 50)
        \<and> (n < 14 \<longrightarrow>
             50 \<le> length (fst (genreLoop P genre (take n (searchTerms genre)) [] tr))))"
proof -
  have len: "length (searchTerms genre) = 14" "searchTerms genre \<noteq> []"
    by (simp_all add: searchTerms_eq)
  have snd_eq: "snd (SearchMoviesByGenre pf P genre tr)
      = snd (genreLoop P genre (searchTerms genre) [] tr)"
    by (simp add: SearchMoviesByGenre_def Let_def split: prod.splits)
  from genreLoop_cutoff [of "[]" "searchTerms genre" P genre tr]
  obtain n where n: "n \<le> length (searchTerms genre)"
      "searchTerms genre \<noteq> [] \<longrightarrow> 1 \<le> n"
      "searchesOf (snd (genreLoop P genre (searchTerms genre) [] tr))
        = searchesOf tr @ take n (searchTerms genre)"
      "\<forall>k<n. length (fst (genreLoop P genre (take k (searchTerms genre)) [] tr)) < 50"
      "n < length (searchTerms genre) \<longrightarrow>
        50 \<le> length (fst (genreLoop P genre (take n (searchTerms genre)) [] tr))"
    by auto
  from n len snd_eq have
    "1 \<le> n \<and> n \<le> 14
      \<and> searchesOf (snd (SearchMoviesByGenre pf P genre tr))
          = searchesOf tr @ take n (searchTerms genre)
      \<and> (\<forall>k<n. length (fst (genreLoop P genre (take k (searchTerms genre)) [] tr)) < 50)
      \<and> (n < 14 \<longrightarrow>
           50 \<le> length (fst (genreLoop P genre (take n (searchTerms genre)) [] tr)))"
    by (simp only: ) simp
  then have "\<exists>n. 1 \<le> n \<and> n \<le> 14
      \<and> searchesOf (snd (SearchMoviesByGenre pf P genre tr))
          = searchesOf tr @ take n (searchTerms genre)
      \<and> (\<forall>k<n. length (fst (genreLoop P genre (take k (searchTerms genre)) [] tr)) < 50)
      \<and> (n < 14 \<longrightarrow>
           50 \<le> length (fst (genreLoop P genre (take n (searchTerms genre)) [] tr)))"
    by (rule exI)
  with searchTerms_eq [of genre] show ?thesis by (rule conjI)
qed

end
